theory Spec2Isabelle
  imports Main "HOL-Library.AList"
begin

section \<open>The extension registry of mesinyer/extension.py\<close>

text \<open>
  The module keeps a table of categories; each category owns a table of registered
  extension classes, a tuple of required interfaces, a selected default and, for
  single-instance categories, a weak reference to the last instance it produced.
  Methods mutate the category in place and may raise: every operation below takes the
  state and returns the outcome (\<open>Inl\<close> an exception, \<open>Inr\<close> the returned value)
  together with the state the call leaves behind, also when it raises.
\<close>

subsection \<open>Python values\<close>

text \<open>
  What \<open>sys.modules[cls.__module__].__file__\<close> finds for a class: the module is not
  in \<open>sys.modules\<close> (the subscript raises KeyError), the module has no \<open>__file__\<close>, as
  a built-in module has none (the attribute access raises AttributeError), or the
  file, given by the absolute path \<open>os.path.abspath\<close> makes of it.
\<close>

datatype module_file = ModuleMissing | FileMissing | FilePath string

text \<open>
  A class object, as far as the module looks at it: its identity (dictionaries hash a
  class by identity), its \<open>__module__\<close>, the file of that module, its \<open>__name__\<close>,
  the text \<open>str(cls)\<close>, the names \<open>dir(cls)\<close> lists, the names for which
  \<open>hasattr(cls, name)\<close> holds, and the truth value of the class object itself in a
  condition (true unless its metaclass defines \<open>__nonzero__\<close> or \<open>__len__\<close> and
  they say otherwise).
\<close>

record pyclass =
  cls_ident :: nat
  cls_module :: string
  cls_file :: module_file
  cls_name :: string
  cls_str :: string
  cls_dir :: "string list"
  cls_attrs :: "string list"
  cls_truth :: bool

text \<open>What a caller passes where a class or an interface is expected: \<open>None\<close> or a class.\<close>

datatype obj = NoneObj | Cls pyclass

datatype key = StrKey string | ObjKey obj

datatype error =
    ValueError string
  | KeyError key
  | AttributeError
  | TypeError
  | ConstructorError string

text \<open>\<open>dir(None)\<close> of Python 2.7: no public name.\<close>

definition none_dir :: "string list" where
  "none_dir = [''__class__'', ''__delattr__'', ''__doc__'', ''__format__'',
     ''__getattribute__'', ''__hash__'', ''__init__'', ''__new__'', ''__reduce__'',
     ''__reduce_ex__'', ''__repr__'', ''__setattr__'', ''__sizeof__'', ''__str__'',
     ''__subclasshook__'']"

fun py_dir :: "obj \<Rightarrow> string list" where
  "py_dir NoneObj = none_dir"
| "py_dir (Cls c) = cls_dir c"

fun hasattr :: "obj \<Rightarrow> string \<Rightarrow> bool" where
  "hasattr NoneObj m = (m \<in> set none_dir)"
| "hasattr (Cls c) m = (m \<in> set (cls_attrs c))"

fun py_str :: "obj \<Rightarrow> string" where
  "py_str NoneObj = ''None''"
| "py_str (Cls c) = cls_str c"

text \<open>\<open>if x:\<close> on \<open>None\<close> or a class.\<close>

fun truthy :: "obj \<Rightarrow> bool" where
  "truthy NoneObj = False"
| "truthy (Cls c) = cls_truth c"

definition startswith_underscore :: "string \<Rightarrow> bool" where
  "startswith_underscore s = (case s of [] \<Rightarrow> False | ch # _ \<Rightarrow> ch = CHR ''_'')"

definition endswith_pyc :: "string \<Rightarrow> bool" where
  "endswith_pyc s = (4 \<le> length s \<and> drop (length s - 4) s = ''.pyc'')"

subsection \<open>is_implementation and _get_class_name\<close>

text \<open>The loop of \<open>is_implementation\<close>: return False at the first missing method.\<close>

fun all_present :: "obj \<Rightarrow> string list \<Rightarrow> bool" where
  "all_present cls [] = True"
| "all_present cls (method # methods) =
     (if \<not> hasattr cls method then False else all_present cls methods)"

definition is_implementation :: "obj \<Rightarrow> obj \<Rightarrow> bool" where
  "is_implementation cls interface_cls =
     all_present cls (filter (\<lambda>attribute. \<not> startswith_underscore attribute)
                        (py_dir interface_cls))"

text \<open>
  \<open>_get_class_name\<close>. \<open>None\<close> has no \<open>__module__\<close>, so the first line raises
  AttributeError for it; for a class the first line raises when the module is not in
  \<open>sys.modules\<close> or has no \<open>__file__\<close>.
\<close>

fun get_class_name :: "obj \<Rightarrow> error + string" where
  "get_class_name NoneObj = Inl AttributeError"
| "get_class_name (Cls c) =
     (case cls_file c of
        ModuleMissing \<Rightarrow> Inl (KeyError (StrKey (cls_module c)))
      | FileMissing \<Rightarrow> Inl AttributeError
      | FilePath abspath \<Rightarrow>
          (let path = abspath;
               path = (if endswith_pyc path then butlast path else path);
               path = path @ '':'' @ cls_name c
           in Inr path))"

subsection \<open>Category\<close>

text \<open>
  The fields of a \<open>Category\<close> object. \<open>system_default\<close> is an attribute the
  constructor assigns only under \<open>if system_default:\<close>, so it may be missing (\<open>None\<close>
  here); \<open>classes\<close> maps an id to a class and \<open>ids\<close> a class to its id, both
  dictionaries, kept as association lists whose order stands for the iteration order;
  \<open>instance_ref\<close> is the field \<open>instance\<close>, a weak reference (an address of the heap
  below) or Python's \<open>None\<close>; \<open>default_id\<close> is a string or Python's \<open>None\<close>.
\<close>

record category =
  name :: string
  system_default :: "obj option"
  interfaces :: "obj list"
  classes :: "(key \<times> obj) list"
  ids :: "(obj \<times> string) list"
  is_single :: bool
  instance_ref :: "nat option"
  default_id :: "string option"

text \<open>The first interface of the tuple that \<open>cls\<close> does not implement, if any.\<close>

fun first_failing :: "obj \<Rightarrow> obj list \<Rightarrow> obj option" where
  "first_failing cls [] = None"
| "first_failing cls (interface # rest) =
     (if \<not> is_implementation cls interface then Some interface
      else first_failing cls rest)"

definition Category_register :: "category \<Rightarrow> obj \<Rightarrow> (error + unit) \<times> category" where
  "Category_register self cls =
     (case first_failing cls (interfaces self) of
        Some interface \<Rightarrow>
          (Inl (ValueError (''cls doesn't agree to the interface: '' @ py_str interface)), self)
      | None \<Rightarrow>
          (case get_class_name cls of
             Inl e \<Rightarrow> (Inl e, self)
           | Inr class_name \<Rightarrow>
               (Inr (), self\<lparr>classes := AList.update (StrKey class_name) cls (classes self),
                              ids := AList.update cls class_name (ids self)\<rparr>)))"

text \<open>
  \<open>del d[k]\<close> for each \<open>k\<close> of a list in turn: the first missing key raises KeyError
  and the deletions made before it stay.
\<close>

fun del_keys :: "key list \<Rightarrow> (key \<times> obj) list \<Rightarrow> error option \<times> (key \<times> obj) list" where
  "del_keys [] d = (None, d)"
| "del_keys (k # ks) d =
     (case map_of d k of
        None \<Rightarrow> (Some (KeyError k), d)
      | Some v \<Rightarrow> del_keys ks (AList.delete k d))"

text \<open>
  The nested loops of \<open>set_interface\<close> that fill \<open>to_remove\<close>: a class is appended
  once for every interface it fails.
\<close>

definition collect_to_remove :: "obj list \<Rightarrow> obj list \<Rightarrow> obj list" where
  "collect_to_remove values ifaces =
     concat (map (\<lambda>cls. map (\<lambda>interface. cls)
                          (filter (\<lambda>interface. \<not> is_implementation cls interface) ifaces))
                 values)"

definition Category_set_interface ::
    "category \<Rightarrow> obj list \<Rightarrow> (error + bool) \<times> category" where
  "Category_set_interface self ifaces =
     (if interfaces self = [] then
        (let self1 = self\<lparr>interfaces := ifaces\<rparr>;
             to_remove = collect_to_remove (map snd (classes self1)) (interfaces self1)
         in case del_keys (map ObjKey to_remove) (classes self1) of
              (Some e, d) \<Rightarrow> (Inl e, self1\<lparr>classes := d\<rparr>)
            | (None, d) \<Rightarrow> (Inr True, self1\<lparr>classes := d\<rparr>))
      else (Inr False, self))"


text \<open>\<open>_set_default\<close>, the setter of the property \<open>default\<close>.\<close>

definition Category_set_default :: "category \<Rightarrow> obj \<Rightarrow> (error + unit) \<times> category" where
  "Category_set_default self cls =
     (case (if map_of (ids self) cls = None then Category_register self cls
            else (Inr (), self)) of
        (Inl e, self1) \<Rightarrow> (Inl e, self1)
      | (Inr u, self1) \<Rightarrow>
          (case get_class_name cls of
             Inl e \<Rightarrow> (Inl e, self1)
           | Inr ident \<Rightarrow>
               (Inr (), if default_id self1 \<noteq> Some ident
                        then self1\<lparr>default_id := Some ident, instance_ref := None\<rparr>
                        else self1)))"

text \<open>\<open>_get_default\<close>, the getter: \<open>self.classes[self.default_id]\<close>.\<close>

definition default_key :: "category \<Rightarrow> key" where
  "default_key self =
     (case default_id self of None \<Rightarrow> ObjKey NoneObj | Some s \<Rightarrow> StrKey s)"

definition Category_get_default :: "category \<Rightarrow> error + obj" where
  "Category_get_default self =
     (case map_of (classes self) (default_key self) of
        None \<Rightarrow> Inl (KeyError (default_key self))
      | Some cls \<Rightarrow> Inr cls)"

text \<open>
  The constructor \<open>__init__\<close>. Its last statement assigns the property \<open>default\<close>,
  which runs \<open>_set_default system_default\<close>; an exception there leaves no object.
\<close>

definition Category_init ::
    "string \<Rightarrow> obj \<Rightarrow> obj list option \<Rightarrow> bool \<Rightarrow> error + category" where
  "Category_init nm sys_default ifaces single_instance =
     (let self = \<lparr>name = nm,
                  system_default = (if truthy sys_default then Some sys_default else None),
                  interfaces = (case ifaces of None \<Rightarrow> [] | Some l \<Rightarrow> l),
                  classes = [],
                  ids = [],
                  is_single = single_instance,
                  instance_ref = None,
                  default_id = None\<rparr>
      in case Category_set_default self sys_default of
           (Inl e, self1) \<Rightarrow> Inl e
         | (Inr u, self1) \<Rightarrow> Inr self1)"

subsection \<open>Instances and the weak reference\<close>

text \<open>
  Instances live in a heap owned by the callers; an address is the identity of an
  instance. A weak reference is an address: dereferencing it gives the instance while
  the heap still holds it and \<open>None\<close> once the callers have dropped it. The
  arguments of a constructor call are opaque to the registry. What calling a class does
  is the run time's business: \<open>construct cls args\<close> is the exception it raises or
  what the registry can observe of the object it builds, its truth value in a
  condition (\<open>__nonzero__\<close>, \<open>__len__\<close>) and whether \<open>weakref.ref\<close> accepts it.
\<close>

type_synonym pyargs = "string list"

record built =
  truth_value :: bool
  weak_referenceable :: bool

record pyinstance =
  inst_class :: pyclass
  inst_args :: pyargs
  inst_truth :: bool
  inst_weakref :: bool

record pyheap =
  objs :: "nat \<Rightarrow> pyinstance option"
  next_addr :: nat

type_synonym constructor = "pyclass \<Rightarrow> pyargs \<Rightarrow> error + built"

definition release :: "nat \<Rightarrow> pyheap \<Rightarrow> pyheap" where
  "release a h = h\<lparr>objs := (objs h)(a := None)\<rparr>"

definition Category_get_instance :: "category \<Rightarrow> pyheap \<Rightarrow> nat option" where
  "Category_get_instance self h =
     (case instance_ref self of
        None \<Rightarrow> None
      | Some r \<Rightarrow> (case objs h r of None \<Rightarrow> None | Some i \<Rightarrow> Some r))"

text \<open>\<open>if x:\<close> on what \<open>get_instance\<close> returned.\<close>

definition truthy_instance :: "pyheap \<Rightarrow> nat option \<Rightarrow> bool" where
  "truthy_instance h x =
     (case x of
        None \<Rightarrow> False
      | Some r \<Rightarrow> (case objs h r of None \<Rightarrow> False | Some i \<Rightarrow> inst_truth i))"

text \<open>
  \<open>get_and_instantiate\<close>. On the single-instance path \<open>weakref.ref(inst)\<close> raises
  TypeError for an object that cannot be weakly referenced; the object just built is
  then held by nobody and is gone.
\<close>

definition Category_get_and_instantiate ::
    "constructor \<Rightarrow> category \<Rightarrow> pyheap \<Rightarrow> pyargs \<Rightarrow>
       (error + nat option) \<times> category \<times> pyheap" where
  "Category_get_and_instantiate construct self h args =
     (if truthy_instance h (Category_get_instance self h)
      then (Inr (Category_get_instance self h), self, h)
      else
        (case Category_get_default self of
           Inl e \<Rightarrow> (Inl e, self, h)
         | Inr NoneObj \<Rightarrow> (Inl TypeError, self, h)
         | Inr (Cls k) \<Rightarrow>
             (case construct k args of
                Inl e \<Rightarrow> (Inl e, self, h)
              | Inr b \<Rightarrow>
                  (let inst = next_addr h;
                       h1 = h\<lparr>objs := (objs h)(inst \<mapsto>
                                \<lparr>inst_class = k, inst_args = args,
                                 inst_truth = truth_value b,
                                 inst_weakref = weak_referenceable b\<rparr>),
                              next_addr := Suc inst\<rparr>
                   in if is_single self
                      then (if weak_referenceable b
                            then (Inr (Some inst), self\<lparr>instance_ref := Some inst\<rparr>, h1)
                            else (Inl TypeError, self, release inst h1))
                      else (Inr (Some inst), self, h1)))))"

text \<open>
  Modelled from the spec: the diagnostic sink \<open>dbg\<close> of module \<open>debugger\<close> is not
  among the sources; a call \<open>dbg(message, category)\<close> is taken to record the pair and
  to do nothing else.
\<close>

type_synonym dbg_entry = "string \<times> string"

definition Category_set_default_by_id ::
    "category \<Rightarrow> string \<Rightarrow> (error + unit) \<times> category \<times> dbg_entry list" where
  "Category_set_default_by_id self ident =
     (case map_of (classes self) (StrKey ident) of
        None \<Rightarrow>
          (Inr (), self,
           [(''extension id '' @ ident @ '' not registered on '' @ name self, ''extension'')])
      | Some cls \<Rightarrow>
          (case Category_set_default self cls of (r, self1) \<Rightarrow> (r, self1, [])))"

subsection \<open>The module-level table\<close>

text \<open>
  \<open>_categories\<close>, the module's dictionary from category name to \<open>Category\<close>, and
  the diagnostics written so far. A category object is mutated in place, so every
  function that calls a method of a stored category stores the state the method left.
  A function without \<open>return\<close> returns Python's \<open>None\<close>: the unit value here, and
  \<open>None\<close> of \<open>bool option\<close> where the same function can also return a boolean.
\<close>

record registry =
  categories :: "(string \<times> category) list"
  dbg_log :: "dbg_entry list"

text \<open>The argument \<open>interfaces\<close> of \<open>category_register\<close>: \<open>iter\<close> accepts it or not.\<close>

datatype interfaces_arg = Iterable "obj list" | NotIterable obj

definition get_category :: "registry \<Rightarrow> string \<Rightarrow> category option" where
  "get_category reg category_name = map_of (categories reg) category_name"

definition put_category :: "registry \<Rightarrow> string \<Rightarrow> category \<Rightarrow> registry" where
  "put_category reg category_name c =
     reg\<lparr>categories := AList.update category_name c (categories reg)\<rparr>"

definition category_register ::
    "registry \<Rightarrow> string \<Rightarrow> obj \<Rightarrow> interfaces_arg \<Rightarrow> bool \<Rightarrow> (error + unit) \<times> registry" where
  "category_register reg category sys_default ifaces_arg single_instance =
     (let ifaces = (case ifaces_arg of Iterable l \<Rightarrow> l | NotIterable i \<Rightarrow> [i])
      in case map_of (categories reg) category of
           None \<Rightarrow>
             (case Category_init category sys_default (Some ifaces) single_instance of
                Inl e \<Rightarrow> (Inl e, reg)
              | Inr c \<Rightarrow> (Inr (), put_category reg category c))
         | Some c \<Rightarrow>
             (case Category_set_interface c ifaces of
                (Inl e, c1) \<Rightarrow> (Inl e, put_category reg category c1)
              | (Inr b, c1) \<Rightarrow> (Inr (), put_category reg category c1)))"

definition register :: "registry \<Rightarrow> string \<Rightarrow> obj \<Rightarrow> (error + bool option) \<times> registry" where
  "register reg category_name cls =
     (case get_category reg category_name of
        None \<Rightarrow>
          (case category_register reg category_name cls (Iterable []) False of
             (Inl e, reg1) \<Rightarrow> (Inl e, reg1)
           | (Inr u, reg1) \<Rightarrow> (Inr None, reg1))
      | Some category \<Rightarrow>
          (case Category_register category cls of
             (Inl e, c1) \<Rightarrow> (Inl e, put_category reg category_name c1)
           | (Inr u, c1) \<Rightarrow> (Inr (Some True), put_category reg category_name c1)))"

text \<open>\<open>if x:\<close> on a returned \<open>None\<close>, \<open>True\<close> or \<open>False\<close>.\<close>

definition truthy_result :: "bool option \<Rightarrow> bool" where
  "truthy_result r = (case r of None \<Rightarrow> False | Some b \<Rightarrow> b)"



definition get_instance :: "registry \<Rightarrow> pyheap \<Rightarrow> string \<Rightarrow> nat option" where
  "get_instance reg h category_name =
     (case get_category reg category_name of
        Some category \<Rightarrow> Category_get_instance category h
      | None \<Rightarrow> None)"

definition get_and_instantiate ::
    "constructor \<Rightarrow> registry \<Rightarrow> pyheap \<Rightarrow> string \<Rightarrow> pyargs \<Rightarrow>
       (error + nat option) \<times> registry \<times> pyheap" where
  "get_and_instantiate construct reg h category_name args =
     (case get_category reg category_name of
        Some category \<Rightarrow>
          (case Category_get_and_instantiate construct category h args of
             (r, c1, h1) \<Rightarrow> (r, put_category reg category_name c1, h1))
      | None \<Rightarrow> (Inr None, reg, h))"

definition set_default :: "registry \<Rightarrow> string \<Rightarrow> obj \<Rightarrow> (error + bool) \<times> registry" where
  "set_default reg category_name cls =
     (case get_category reg category_name of
        Some category \<Rightarrow>
          (case Category_set_default category cls of
             (Inl e, c1) \<Rightarrow> (Inl e, put_category reg category_name c1)
           | (Inr u, c1) \<Rightarrow> (Inr True, put_category reg category_name c1))
      | None \<Rightarrow> (Inr False, reg))"

definition set_default_by_id ::
    "registry \<Rightarrow> string \<Rightarrow> string \<Rightarrow> (error + bool) \<times> registry" where
  "set_default_by_id reg category_name ident =
     (case get_category reg category_name of
        Some category \<Rightarrow>
          (case Category_set_default_by_id category ident of
             (Inl e, c1, out) \<Rightarrow>
               (Inl e, (put_category reg category_name c1)\<lparr>dbg_log := dbg_log reg @ out\<rparr>)
           | (Inr u, c1, out) \<Rightarrow>
               (Inr True, (put_category reg category_name c1)\<lparr>dbg_log := dbg_log reg @ out\<rparr>))
      | None \<Rightarrow> (Inr False, reg))"


subsection \<open>Sequences of calls on one category\<close>

text \<open>
  A caller holding a category may call its methods in any order, catching what they
  raise, and may drop instances it holds (\<open>Release\<close>) at any time. \<open>run_ops\<close> threads the
  category and the heap through such a sequence of calls.
\<close>

datatype cat_op =
    Register obj
  | SetInterface "obj list"
  | SetDefault obj
  | SetDefaultById string
  | GetDefault
  | GetInstance
  | GetAndInstantiate pyargs
  | Release nat

fun apply_op :: "constructor \<Rightarrow> category \<times> pyheap \<Rightarrow> cat_op \<Rightarrow> category \<times> pyheap" where
  "apply_op construct (c, h) (Register cls) = (snd (Category_register c cls), h)"
| "apply_op construct (c, h) (SetInterface ifaces) = (snd (Category_set_interface c ifaces), h)"
| "apply_op construct (c, h) (SetDefault cls) = (snd (Category_set_default c cls), h)"
| "apply_op construct (c, h) (SetDefaultById ident) =
     (fst (snd (Category_set_default_by_id c ident)), h)"
| "apply_op construct (c, h) GetDefault = (c, h)"
| "apply_op construct (c, h) GetInstance = (c, h)"
| "apply_op construct (c, h) (GetAndInstantiate args) =
     snd (Category_get_and_instantiate construct c h args)"
| "apply_op construct (c, h) (Release a) = (c, release a h)"

definition run_ops :: "constructor \<Rightarrow> category \<times> pyheap \<Rightarrow> cat_op list \<Rightarrow> category \<times> pyheap" where
  "run_ops construct s ops = foldl (apply_op construct) s ops"

text \<open>
  What holds of every category the constructor built and the methods changed: the keys
  of \<open>classes\<close> are id strings, the class stored under an id is a key of \<open>ids\<close> with that
  id, and \<open>ids\<close> holds for each class the name \<open>_get_class_name\<close> computes.
\<close>

definition category_inv :: "category \<Rightarrow> bool" where
  "category_inv c \<longleftrightarrow>
     (\<forall>(k, v) \<in> set (classes c). \<exists>s. k = StrKey s \<and> map_of (ids c) v = Some s) \<and>
     (\<forall>(v, s) \<in> set (ids c). get_class_name v = Inr s)"

subsection \<open>Example classes\<close>

text \<open>
  The interface of the module's docstring (\<open>IFoo\<close> with \<open>method_foo\<close> and
  \<open>method_bar\<close>), an extension that implements it and one that lacks \<open>method_bar\<close>.
\<close>

definition IFoo :: pyclass where
  "IFoo = \<lparr>cls_ident = 1, cls_module = ''interfaces'',
           cls_file = FilePath ''/emesene/interfaces.pyc'', cls_name = ''IFoo'',
           cls_str = ''<class 'interfaces.IFoo'>'',
           cls_dir = [''__doc__'', ''__init__'', ''__module__'', ''method_bar'', ''method_foo''],
           cls_attrs = [''__doc__'', ''__init__'', ''__module__'', ''method_bar'', ''method_foo''],
           cls_truth = True\<rparr>"

definition GoodExt :: pyclass where
  "GoodExt = \<lparr>cls_ident = 2, cls_module = ''good'',
              cls_file = FilePath ''/emesene/plugins/good.pyc'', cls_name = ''GoodExt'',
              cls_str = ''<class 'good.GoodExt'>'',
              cls_dir = [''__doc__'', ''__init__'', ''__module__'', ''method_bar'', ''method_foo'', ''run''],
              cls_attrs = [''__doc__'', ''__init__'', ''__module__'', ''method_bar'', ''method_foo'', ''run''],
              cls_truth = True\<rparr>"

definition BadExt :: pyclass where
  "BadExt = \<lparr>cls_ident = 3, cls_module = ''bad'',
             cls_file = FilePath ''/emesene/plugins/bad.py'', cls_name = ''BadExt'',
             cls_str = ''<class 'bad.BadExt'>'',
             cls_dir = [''__doc__'', ''__init__'', ''__module__'', ''method_foo''],
             cls_attrs = [''__doc__'', ''__init__'', ''__module__'', ''method_foo''],
             cls_truth = True\<rparr>"

text \<open>
  A class of a built-in module, as \<open>dict\<close> of \<open>__builtin__\<close> is: the module is
  loaded and has no \<open>__file__\<close>.
\<close>

definition BuiltinExt :: pyclass where
  "BuiltinExt = \<lparr>cls_ident = 4, cls_module = ''__builtin__'',
                 cls_file = FileMissing, cls_name = ''dict'',
                 cls_str = ''<type 'dict'>'',
                 cls_dir = [''__doc__'', ''__init__'', ''clear'', ''get'', ''keys''],
                 cls_attrs = [''__doc__'', ''__init__'', ''clear'', ''get'', ''keys''],
                 cls_truth = True\<rparr>"

text \<open>
  A run time in which every construction succeeds and builds an object that is true
  in a condition and can be weakly referenced.
\<close>

definition plain_objects :: constructor where
  "plain_objects k args = Inr \<lparr>truth_value = True, weak_referenceable = True\<rparr>"

text \<open>
  A run time in which every construction succeeds and builds an object that is false
  in a condition, as an instance of a class with \<open>__len__\<close> is while it is empty.
\<close>

definition empty_containers :: constructor where
  "empty_containers k args = Inr \<lparr>truth_value = False, weak_referenceable = True\<rparr>"

definition empty_heap :: pyheap where
  "empty_heap = \<lparr>objs = (\<lambda>a. None), next_addr = 0\<rparr>"

definition empty_registry :: registry where
  "empty_registry = \<lparr>categories = [], dbg_log = []\<rparr>"

text \<open>
  The category \<open>Category('codec', GoodExt, [IFoo])\<close> and the single-instance category
  \<open>Category('storage', BadExt, None, True)\<close>, as the constructor leaves them.
\<close>

definition codec_category :: category where
  "codec_category =
     \<lparr>name = ''codec'', system_default = Some (Cls GoodExt), interfaces = [Cls IFoo],
      classes = [(StrKey ''/emesene/plugins/good.py:GoodExt'', Cls GoodExt)],
      ids = [(Cls GoodExt, ''/emesene/plugins/good.py:GoodExt'')],
      is_single = False, instance_ref = None,
      default_id = Some ''/emesene/plugins/good.py:GoodExt''\<rparr>"

definition storage_category :: category where
  "storage_category =
     \<lparr>name = ''storage'', system_default = Some (Cls BadExt), interfaces = [],
      classes = [(StrKey ''/emesene/plugins/bad.py:BadExt'', Cls BadExt)],
      ids = [(Cls BadExt, ''/emesene/plugins/bad.py:BadExt'')],
      is_single = True, instance_ref = None,
      default_id = Some ''/emesene/plugins/bad.py:BadExt''\<rparr>"

subsection \<open>Conformance\<close>

lemma all_present_iff: "all_present cls ms \<longleftrightarrow> (\<forall>m \<in> set ms. hasattr cls m)"
  by (induction ms) auto

lemma none_dir_private: "\<forall>m \<in> set none_dir. startswith_underscore m"
  by (simp add: none_dir_def startswith_underscore_def)

text \<open>
  C9. \<open>is_implementation cls interface\<close> is true exactly when \<open>cls\<close> has an attribute
  for every name of \<open>dir(interface)\<close> that does not start with an underscore; for the
  absent interface \<open>None\<close> and for an interface that lists no name it is true for every
  \<open>cls\<close>. The function is a total, pure function of its two arguments: it returns a
  truth value for every input and touches no state.
\<close>

theorem is_implementation_conforms:
  "(is_implementation cls interface_cls \<longleftrightarrow>
      (\<forall>m \<in> set (py_dir interface_cls). \<not> startswith_underscore m \<longrightarrow> hasattr cls m))
   \<and> is_implementation cls NoneObj
   \<and> (py_dir interface_cls = [] \<longrightarrow> is_implementation cls interface_cls)"
proof -
  have a: "is_implementation cls interface_cls \<longleftrightarrow>
      (\<forall>m \<in> set (py_dir interface_cls). \<not> startswith_underscore m \<longrightarrow> hasattr cls m)"
    by (auto simp: is_implementation_def all_present_iff)
  have b: "is_implementation cls NoneObj"
    using none_dir_private by (simp add: is_implementation_def all_present_iff)
  have c: "py_dir interface_cls = [] \<longrightarrow> is_implementation cls interface_cls"
    by (simp add: is_implementation_def)
  from a b c show ?thesis by blast
qed

lemma codec_category_created:
  "Category_init ''codec'' (Cls GoodExt) (Some [Cls IFoo]) False = Inr codec_category"
  by code_simp

lemma storage_category_created:
  "Category_init ''storage'' (Cls BadExt) None True = Inr storage_category"
  by code_simp

theorem is_implementation_conforms_witness:
  "is_implementation (Cls GoodExt) (Cls IFoo) \<and> \<not> is_implementation (Cls BadExt) (Cls IFoo)
   \<and> \<not> hasattr (Cls BadExt) ''method_bar'' \<and> is_implementation NoneObj NoneObj"
  using is_implementation_conforms [of "Cls GoodExt" "Cls IFoo"]
        is_implementation_conforms [of "Cls BadExt" "Cls IFoo"]
        is_implementation_conforms [of NoneObj NoneObj]
  by (simp add: GoodExt_def BadExt_def IFoo_def startswith_underscore_def)

subsection \<open>Registration\<close>

lemma first_failing_None:
  "first_failing cls l = None \<longleftrightarrow> (\<forall>i \<in> set l. is_implementation cls i)"
  by (induction l) auto

lemma first_failing_Some:
  "first_failing cls l = Some bad \<Longrightarrow> bad \<in> set l \<and> \<not> is_implementation cls bad"
  by (induction l) (auto split: if_splits)

text \<open>The interface the exception names is the first one of the tuple that fails.\<close>

lemma first_failing_prefix:
  "first_failing cls l = Some bad \<Longrightarrow>
     \<exists>pre post. l = pre @ bad # post \<and> (\<forall>i \<in> set pre. is_implementation cls i)"
proof (induction l)
  case Nil
  then show ?case by simp
next
  case (Cons a l)
  show ?case
  proof (cases "is_implementation cls a")
    case True
    with Cons.prems have "first_failing cls l = Some bad" by simp
    from Cons.IH [OF this] obtain pre post
      where "l = pre @ bad # post" "\<forall>i \<in> set pre. is_implementation cls i" by blast
    with True have "a # l = (a # pre) @ bad # post
        \<and> (\<forall>i \<in> set (a # pre). is_implementation cls i)"
      by simp
    then show ?thesis by blast
  next
    case False
    with Cons.prems have "a = bad" by simp
    then have "a # l = [] @ bad # l \<and> (\<forall>i \<in> set []. is_implementation cls i)" by simp
    then show ?thesis by blast
  qed
qed

lemma put_category_same: "get_category reg n = Some c \<Longrightarrow> put_category reg n c = reg"
  by (simp add: get_category_def put_category_def AList.update_triv)

text \<open>
  C5. When \<open>cls\<close> fails one of the category's required interfaces, \<open>Category.register\<close>
  raises ValueError, the message naming the first interface of the tuple that \<open>cls\<close>
  fails, and the category is left exactly as it was; the module-level \<open>register\<close> on a
  stored category raises the same error and leaves the whole table as it was.
\<close>

theorem register_rejects_nonconforming:
  assumes "interface \<in> set (interfaces self)" and "\<not> is_implementation cls interface"
  shows "\<exists>bad. first_failing cls (interfaces self) = Some bad
           \<and> bad \<in> set (interfaces self) \<and> \<not> is_implementation cls bad
           \<and> Category_register self cls =
               (Inl (ValueError (''cls doesn't agree to the interface: '' @ py_str bad)), self)
           \<and> (\<forall>reg n. get_category reg n = Some self \<longrightarrow>
                 register reg n cls =
                   (Inl (ValueError (''cls doesn't agree to the interface: '' @ py_str bad)), reg))"
proof -
  from assms have "first_failing cls (interfaces self) \<noteq> None"
    by (auto simp: first_failing_None)
  then obtain bad where bad: "first_failing cls (interfaces self) = Some bad" by blast
  have r: "Category_register self cls =
      (Inl (ValueError (''cls doesn't agree to the interface: '' @ py_str bad)), self)"
    using bad by (simp add: Category_register_def)
  have "\<forall>reg n. get_category reg n = Some self \<longrightarrow>
          register reg n cls =
            (Inl (ValueError (''cls doesn't agree to the interface: '' @ py_str bad)), reg)"
    using r by (simp add: register_def put_category_same)
  with bad r first_failing_Some [OF bad] show ?thesis by blast
qed

lemma BadExt_fails_IFoo: "\<not> is_implementation (Cls BadExt) (Cls IFoo)"
  by (simp add: is_implementation_def BadExt_def IFoo_def startswith_underscore_def)

theorem register_rejects_nonconforming_witness:
  "Cls IFoo \<in> set (interfaces codec_category)
   \<and> \<not> is_implementation (Cls BadExt) (Cls IFoo)
   \<and> Category_register codec_category (Cls BadExt) =
       (Inl (ValueError ''cls doesn't agree to the interface: <class 'interfaces.IFoo'>''),
        codec_category)"
proof -
  have h1: "Cls IFoo \<in> set (interfaces codec_category)"
    by (simp add: codec_category_def)
  have ff: "first_failing (Cls BadExt) (interfaces codec_category) = Some (Cls IFoo)"
    using BadExt_fails_IFoo by (simp add: codec_category_def)
  have s: "py_str (Cls IFoo) = ''<class 'interfaces.IFoo'>''"
    by (simp add: IFoo_def)
  from register_rejects_nonconforming [OF h1 BadExt_fails_IFoo]
  show ?thesis using h1 BadExt_fails_IFoo ff s by auto
qed

subsection \<open>The invariant of a category\<close>

lemma set_update_cases:
  "(a, b) \<in> set (AList.update k v al) \<Longrightarrow> (a, b) = (k, v) \<or> (a, b) \<in> set al"
  by (induction al) (auto split: if_splits)

lemma set_delete_subset: "set (AList.delete k al) \<subseteq> set al"
  by (auto simp: AList.delete_eq)

lemma del_keys_subset: "set (snd (del_keys ks d)) \<subseteq> set d"
proof (induction ks arbitrary: d)
  case Nil
  then show ?case by simp
next
  case (Cons k ks)
  show ?case
  proof (cases "map_of d k")
    case None
    then show ?thesis by simp
  next
    case (Some v)
    have "set (snd (del_keys ks (AList.delete k d))) \<subseteq> set (AList.delete k d)"
      by (rule Cons.IH)
    with Some show ?thesis using set_delete_subset [of k d] by auto
  qed
qed

lemma inv_ids_name:
  "category_inv c \<Longrightarrow> map_of (ids c) v = Some s \<Longrightarrow> get_class_name v = Inr s"
  by (auto simp: category_inv_def dest: map_of_SomeD)

lemma inv_register: 
  assumes "category_inv c"
  shows "category_inv (snd (Category_register c cls))"
proof (cases "first_failing cls (interfaces c)")
  case (Some bad)
  with assms show ?thesis by (simp add: Category_register_def)
next
  case None
  show ?thesis
  proof (cases "get_class_name cls")
    case (Inl e)
    with None assms show ?thesis by (simp add: Category_register_def)
  next
    case (Inr nm)
    let ?c = "c\<lparr>classes := AList.update (StrKey nm) cls (classes c),
                 ids := AList.update cls nm (ids c)\<rparr>"
    have eq: "snd (Category_register c cls) = ?c"
      using None Inr by (simp add: Category_register_def)
    have a: "\<forall>(k, v) \<in> set (classes ?c). \<exists>s. k = StrKey s \<and> map_of (ids ?c) v = Some s"
    proof (clarify)
      fix k v assume "(k, v) \<in> set (classes ?c)"
      then have "(k, v) = (StrKey nm, cls) \<or> (k, v) \<in> set (classes c)"
        using set_update_cases [of k v "StrKey nm" cls "classes c"] by simp
      then show "\<exists>s. k = StrKey s \<and> map_of (ids ?c) v = Some s"
      proof
        assume "(k, v) = (StrKey nm, cls)"
        then show ?thesis by (simp add: AList.update_conv')
      next
        assume "(k, v) \<in> set (classes c)"
        with assms obtain s where s: "k = StrKey s" "map_of (ids c) v = Some s"
          by (auto simp: category_inv_def)
        show ?thesis
        proof (cases "v = cls")
          case True
          with s assms Inr have "s = nm" using inv_ids_name [of c v s] by simp
          with s True show ?thesis by (simp add: AList.update_conv')
        next
          case False
          with s show ?thesis by (simp add: AList.update_conv')
        qed
      qed
    qed
    have b: "\<forall>(v, s) \<in> set (ids ?c). get_class_name v = Inr s"
    proof (clarify)
      fix v s assume "(v, s) \<in> set (ids ?c)"
      then have "(v, s) = (cls, nm) \<or> (v, s) \<in> set (ids c)"
        using set_update_cases [of v s cls nm "ids c"] by simp
      with assms Inr show "get_class_name v = Inr s"
        by (auto simp: category_inv_def)
    qed
    from a b show ?thesis unfolding eq category_inv_def by blast
  qed
qed

lemma register_keeps: 
  "is_single (snd (Category_register c cls)) = is_single c"
  "instance_ref (snd (Category_register c cls)) = instance_ref c"
  "default_id (snd (Category_register c cls)) = default_id c"
  "interfaces (snd (Category_register c cls)) = interfaces c"
  by (auto simp: Category_register_def split: option.splits sum.splits)

lemma inv_fields:
  "classes c' = classes c \<Longrightarrow> ids c' = ids c \<Longrightarrow> category_inv c' = category_inv c"
  by (simp add: category_inv_def)

lemma inv_set_default:
  assumes "category_inv c"
  shows "category_inv (snd (Category_set_default c cls))"
proof -
  let ?c1 = "snd (if map_of (ids c) cls = None then Category_register c cls else (Inr (), c))"
  have i1: "category_inv ?c1" using assms inv_register [of c cls] by simp
  have "classes (snd (Category_set_default c cls)) = classes ?c1
      \<and> ids (snd (Category_set_default c cls)) = ids ?c1"
    by (auto simp: Category_set_default_def split: prod.splits sum.splits)
  with i1 show ?thesis using inv_fields by blast
qed

lemma inv_set_interface:
  assumes "category_inv c"
  shows "category_inv (snd (Category_set_interface c ifaces))"
proof (cases "interfaces c = []")
  case False
  with assms show ?thesis by (simp add: Category_set_interface_def)
next
  case True
  let ?c1 = "c\<lparr>interfaces := ifaces\<rparr>"
  let ?r = "del_keys (map ObjKey (collect_to_remove (map snd (classes ?c1)) (interfaces ?c1))) (classes ?c1)"
  have sub: "set (snd ?r) \<subseteq> set (classes c)"
    using del_keys_subset [of _ "classes ?c1"] by simp
  have eq: "classes (snd (Category_set_interface c ifaces)) = snd ?r
       \<and> ids (snd (Category_set_interface c ifaces)) = ids c"
    using True by (auto simp: Category_set_interface_def Let_def split: prod.splits option.splits)
  from assms sub show ?thesis
    unfolding category_inv_def using eq by auto
qed

lemma inv_set_default_by_id:
  assumes "category_inv c"
  shows "category_inv (fst (snd (Category_set_default_by_id c ident)))"
proof (cases "map_of (classes c) (StrKey ident)")
  case None
  with assms show ?thesis by (simp add: Category_set_default_by_id_def)
next
  case (Some cls)
  then have "fst (snd (Category_set_default_by_id c ident)) = snd (Category_set_default c cls)"
    by (simp add: Category_set_default_by_id_def prod.case_eq_if)
  with assms show ?thesis by (simp add: inv_set_default)
qed

lemma inv_get_and_instantiate:
  assumes "category_inv c"
  shows "category_inv (fst (snd (Category_get_and_instantiate construct c h args)))"
proof -
  have "classes (fst (snd (Category_get_and_instantiate construct c h args))) = classes c
      \<and> ids (fst (snd (Category_get_and_instantiate construct c h args))) = ids c"
    by (auto simp: Category_get_and_instantiate_def Let_def split: sum.splits obj.splits)
  with assms show ?thesis using inv_fields by blast
qed

lemma inv_init:
  assumes "Category_init nm d ifaces single = Inr c"
  shows "category_inv c"
proof -
  let ?c0 = "\<lparr>name = nm, system_default = (if truthy d then Some d else None),
              interfaces = (case ifaces of None \<Rightarrow> [] | Some l \<Rightarrow> l),
              classes = [], ids = [], is_single = single, instance_ref = None,
              default_id = None\<rparr>"
  have "category_inv ?c0" by (simp add: category_inv_def)
  then have "category_inv (snd (Category_set_default ?c0 d))" by (rule inv_set_default)
  moreover have "c = snd (Category_set_default ?c0 d)"
    using assms by (auto simp: Category_init_def Let_def split: prod.splits sum.splits)
  ultimately show ?thesis by simp
qed

lemma inv_apply_op:
  "category_inv (fst s) \<Longrightarrow> category_inv (fst (apply_op construct s op))"
proof (cases s)
  case (Pair c h)
  assume "category_inv (fst s)"
  with Pair have i: "category_inv c" by simp
  show ?thesis unfolding Pair
    using i inv_register inv_set_interface inv_set_default inv_set_default_by_id
      inv_get_and_instantiate [of c construct h]
    by (cases op) (simp_all add: prod.case_eq_if)
qed

lemma inv_run_ops:
  "category_inv (fst s) \<Longrightarrow> category_inv (fst (run_ops construct s ops))"
  unfolding run_ops_def
  by (induction ops arbitrary: s) (simp_all add: inv_apply_op)

subsection \<open>Selecting the default\<close>

lemma inv_stored_class:
  assumes "category_inv c" and "map_of (classes c) (StrKey d) = Some cls"
  shows "map_of (ids c) cls = Some d \<and> get_class_name cls = Inr d"
proof -
  from assms(2) have "(StrKey d, cls) \<in> set (classes c)" by (rule map_of_SomeD)
  with assms(1) obtain s where "StrKey d = StrKey s" "map_of (ids c) cls = Some s"
    unfolding category_inv_def by blast
  then have m: "map_of (ids c) cls = Some d" by simp
  with assms(1) show ?thesis using inv_ids_name by blast
qed

lemma set_default_registered:
  assumes "category_inv c" and "map_of (classes c) (StrKey d) = Some cls"
  shows "Category_set_default c cls =
           (Inr (), if default_id c \<noteq> Some d
                    then c\<lparr>default_id := Some d, instance_ref := None\<rparr> else c)"
  using inv_stored_class [OF assms] by (simp add: Category_set_default_def)

text \<open>
  C7. In a category with a populated instance cache, \<open>_set_default\<close> called with the
  class stored under the current \<open>default_id\<close> changes nothing: the call returns
  normally, \<open>default_id\<close> and the cached reference are as before and so is every other
  field; the module-level \<open>set_default\<close> returns True and leaves the table unchanged.
\<close>

theorem set_default_same_is_noop:
  assumes "category_inv c" and "default_id c = Some d"
      and "map_of (classes c) (StrKey d) = Some cls" and "instance_ref c = Some r"
  shows "Category_set_default c cls = (Inr (), c)
         \<and> default_id (snd (Category_set_default c cls)) = Some d
         \<and> instance_ref (snd (Category_set_default c cls)) = Some r
         \<and> (\<forall>reg n. get_category reg n = Some c \<longrightarrow> set_default reg n cls = (Inr True, reg))"
proof -
  have a: "Category_set_default c cls = (Inr (), c)"
    using set_default_registered [OF assms(1) assms(3)] assms(2) by simp
  have "\<forall>reg n. get_category reg n = Some c \<longrightarrow> set_default reg n cls = (Inr True, reg)"
    using a by (simp add: set_default_def put_category_same)
  with a assms show ?thesis by simp
qed

lemma storage_category_inv: "category_inv (storage_category\<lparr>instance_ref := Some r\<rparr>)"
  by (simp add: category_inv_def storage_category_def BadExt_def endswith_pyc_def Let_def)

theorem set_default_same_is_noop_witness:
  "Category_set_default (storage_category\<lparr>instance_ref := Some 0\<rparr>) (Cls BadExt) =
     (Inr (), storage_category\<lparr>instance_ref := Some 0\<rparr>)"
proof -
  have d: "default_id (storage_category\<lparr>instance_ref := Some 0\<rparr>)
             = Some ''/emesene/plugins/bad.py:BadExt''"
    by (simp add: storage_category_def)
  have m: "map_of (classes (storage_category\<lparr>instance_ref := Some 0\<rparr>))
             (StrKey ''/emesene/plugins/bad.py:BadExt'') = Some (Cls BadExt)"
    by (simp add: storage_category_def)
  have r: "instance_ref (storage_category\<lparr>instance_ref := Some 0\<rparr>) = Some 0" by simp
  from set_default_same_is_noop [OF storage_category_inv d m r] show ?thesis by blast
qed

text \<open>
  What \<open>Category.set_default_by_id\<close> does: with a known id, what \<open>_set_default\<close>
  does with the class stored under that id, and no diagnostic; with an unknown id,
  one diagnostic and no change. It raises in neither case.
\<close>

lemma Category_set_default_by_id_cases:
  assumes "category_inv c"
  shows "(\<forall>cls. map_of (classes c) (StrKey ident) = Some cls \<longrightarrow>
            Category_set_default_by_id c ident =
              (Inr (), (if default_id c \<noteq> Some ident
                        then c\<lparr>default_id := Some ident, instance_ref := None\<rparr> else c), [])
            \<and> Category_set_default c cls =
              (Inr (), (if default_id c \<noteq> Some ident
                        then c\<lparr>default_id := Some ident, instance_ref := None\<rparr> else c)))
       \<and> (map_of (classes c) (StrKey ident) = None \<longrightarrow>
            Category_set_default_by_id c ident =
              (Inr (), c,
               [(''extension id '' @ ident @ '' not registered on '' @ name c, ''extension'')]))"
proof -
  have known: "\<forall>cls. map_of (classes c) (StrKey ident) = Some cls \<longrightarrow>
            Category_set_default_by_id c ident =
              (Inr (), (if default_id c \<noteq> Some ident
                        then c\<lparr>default_id := Some ident, instance_ref := None\<rparr> else c), [])
            \<and> Category_set_default c cls =
              (Inr (), (if default_id c \<noteq> Some ident
                        then c\<lparr>default_id := Some ident, instance_ref := None\<rparr> else c))"
    using set_default_registered [OF assms]
    by (simp add: Category_set_default_by_id_def)
  have unknown: "map_of (classes c) (StrKey ident) = None \<longrightarrow>
            Category_set_default_by_id c ident =
              (Inr (), c,
               [(''extension id '' @ ident @ '' not registered on '' @ name c, ''extension'')])"
    by (simp add: Category_set_default_by_id_def)
  from known unknown show ?thesis by blast
qed

text \<open>
  C3 does not hold of the code. On a table that holds the category \<open>storage\<close>, the
  module-level \<open>set_default_by_id('storage', 'nope')\<close> with the unknown id \<open>nope\<close>
  returns True: the category is unchanged and one diagnostic is written, but the
  result does not tell the caller that the id is unknown.
\<close>

theorem set_default_by_id_unknown_returns_True:
  "get_category \<lparr>categories = [(''storage'', storage_category)], dbg_log = []\<rparr> ''storage''
     = Some storage_category
   \<and> map_of (classes storage_category) (StrKey ''nope'') = None
   \<and> set_default_by_id \<lparr>categories = [(''storage'', storage_category)], dbg_log = []\<rparr>
        ''storage'' ''nope''
     = (Inr True,
        \<lparr>categories = [(''storage'', storage_category)],
         dbg_log = [(''extension id nope not registered on storage'', ''extension'')]\<rparr>)"
  by (simp add: storage_category_def set_default_by_id_def get_category_def put_category_def
      Category_set_default_by_id_def)

subsection \<open>Creating a category\<close>

text \<open>
  C4 as stated fails: with \<open>system_default = None\<close> the constructor raises
  AttributeError, in \<open>_get_class_name(None)\<close> reached through the assignment to the
  property \<open>default\<close>; with a class as system default the new category has
  \<open>default_id\<close> set to the id of that class.
\<close>

theorem Category_init_counterexample:
  "Category_init ''storage'' NoneObj None True = Inl AttributeError
   \<and> Category_init ''storage'' (Cls BadExt) None True = Inr storage_category
   \<and> default_id storage_category = Some ''/emesene/plugins/bad.py:BadExt''"
  by (simp add: storage_category_def Category_init_def Category_set_default_def
      Category_register_def BadExt_def endswith_pyc_def Let_def)

lemma Category_init_class:
  assumes "\<forall>i \<in> set (case ifaces of None \<Rightarrow> [] | Some l \<Rightarrow> l). is_implementation (Cls k) i"
      and "get_class_name (Cls k) = Inr ident"
  shows "Category_init nm (Cls k) ifaces single =
           Inr \<lparr>name = nm,
                system_default = (if truthy (Cls k) then Some (Cls k) else None),
                interfaces = (case ifaces of None \<Rightarrow> [] | Some l \<Rightarrow> l),
                classes = [(StrKey ident, Cls k)], ids = [(Cls k, ident)],
                is_single = single, instance_ref = None, default_id = Some ident\<rparr>"
proof -
  have ff: "first_failing (Cls k) (case ifaces of None \<Rightarrow> [] | Some l \<Rightarrow> l) = None"
    using assms(1) by (simp add: first_failing_None)
  show ?thesis
    using ff assms(2)
    by (simp add: Category_init_def Category_set_default_def Category_register_def
        del: get_class_name.simps truthy.simps)
qed

text \<open>The constructor passes on what \<open>_get_class_name\<close> raises and builds nothing.\<close>

lemma Category_init_no_name:
  assumes "get_class_name d = Inl e"
      and "\<forall>i \<in> set (case ifaces of None \<Rightarrow> [] | Some l \<Rightarrow> l). is_implementation d i"
  shows "Category_init nm d ifaces single = Inl e"
proof -
  have ff: "first_failing d (case ifaces of None \<Rightarrow> [] | Some l \<Rightarrow> l) = None"
    using assms(2) by (simp add: first_failing_None)
  show ?thesis
    using ff assms(1)
    by (simp add: Category_init_def Category_set_default_def Category_register_def)
qed

text \<open>
  C4, as amended. For every name, interface tuple and mode, and every system default
  that is a class which implements all the interfaces, is true in a condition and
  whose id \<open>_get_class_name\<close> computes, the constructor succeeds: it stores the class
  verbatim as \<open>system_default\<close>, registers it as the only extension and selects it as
  the default (\<open>default_id\<close> is its id), and the instance cache is empty.
\<close>

theorem Category_init_selects_system_default:
  assumes "\<forall>i \<in> set (case ifaces of None \<Rightarrow> [] | Some l \<Rightarrow> l). is_implementation (Cls k) i"
      and "get_class_name (Cls k) = Inr ident"
      and "truthy (Cls k)"
  shows "Category_init nm (Cls k) ifaces single =
           Inr \<lparr>name = nm, system_default = Some (Cls k),
                interfaces = (case ifaces of None \<Rightarrow> [] | Some l \<Rightarrow> l),
                classes = [(StrKey ident, Cls k)], ids = [(Cls k, ident)],
                is_single = single, instance_ref = None, default_id = Some ident\<rparr>"
  using Category_init_class [OF assms(1,2), of nm single] assms(3) by simp

theorem Category_init_selects_system_default_witness:
  "Category_init ''codec'' (Cls GoodExt) (Some [Cls IFoo]) False = Inr codec_category"
proof -
  have g: "is_implementation (Cls GoodExt) (Cls IFoo)"
    by (simp add: is_implementation_def GoodExt_def IFoo_def startswith_underscore_def)
  have a: "\<forall>i \<in> set (case Some [Cls IFoo] of None \<Rightarrow> [] | Some l \<Rightarrow> l).
             is_implementation (Cls GoodExt) i"
    using g by simp
  have b: "get_class_name (Cls GoodExt) = Inr ''/emesene/plugins/good.py:GoodExt''"
    by (simp add: GoodExt_def endswith_pyc_def Let_def)
  have t: "truthy (Cls GoodExt)" by (simp add: GoodExt_def)
  from Category_init_selects_system_default [OF a b t, of "''codec''" False]
  show ?thesis by (simp add: codec_category_def)
qed

subsection \<open>Registering into a category that does not exist\<close>

lemma get_put_category: "get_category (put_category reg n c) n = Some c"
  by (simp add: get_category_def put_category_def AList.update_conv')

lemma register_creates:
  assumes "get_category reg n = None" and "get_class_name (Cls k) = Inr ident"
  shows "register reg n (Cls k) =
           (Inr None,
            put_category reg n
              \<lparr>name = n, system_default = (if truthy (Cls k) then Some (Cls k) else None),
               interfaces = [],
               classes = [(StrKey ident, Cls k)], ids = [(Cls k, ident)],
               is_single = False, instance_ref = None, default_id = Some ident\<rparr>)"
proof -
  have i: "Category_init n (Cls k) (Some []) False =
      Inr \<lparr>name = n, system_default = (if truthy (Cls k) then Some (Cls k) else None),
           interfaces = [],
           classes = [(StrKey ident, Cls k)], ids = [(Cls k, ident)],
           is_single = False, instance_ref = None, default_id = Some ident\<rparr>"
    using Category_init_class [of "Some []" k ident n False] assms(2) by simp
  from assms(1) have m: "map_of (categories reg) n = None" by (simp add: get_category_def)
  show ?thesis
    using assms(1) m i by (simp add: register_def category_register_def)
qed

text \<open>When the id of the class cannot be computed, nothing is created.\<close>

lemma register_no_name:
  assumes "get_category reg n = None" and "get_class_name (Cls k) = Inl e"
  shows "register reg n (Cls k) = (Inl e, reg)"
proof -
  have i: "Category_init n (Cls k) (Some []) False = Inl e"
    using Category_init_no_name [of "Cls k" e "Some []" n False] assms(2) by simp
  from assms(1) have m: "map_of (categories reg) n = None" by (simp add: get_category_def)
  show ?thesis
    using assms(1) m i by (simp add: register_def category_register_def)
qed


lemma empty_registry_absent: "get_category empty_registry n = None"
  by (simp add: get_category_def empty_registry_def)

lemma GoodExt_name: "get_class_name (Cls GoodExt) = Inr ''/emesene/plugins/good.py:GoodExt''"
  by (simp add: GoodExt_def endswith_pyc_def Let_def)




text \<open>
  C10, as amended. For a category name that is not in the table and a class whose id
  \<open>_get_class_name\<close> computes, the module-level \<open>register\<close> creates the category,
  the class being passed as its system default (it is the selected default, and the
  stored system default when it is true in a condition), and returns \<open>None\<close>, which
  is false in a condition. For a class whose id cannot be computed \<open>register\<close> raises
  what \<open>_get_class_name\<close> raises and creates nothing. On a category that exists, a
  successful registration returns \<open>True\<close>.
\<close>

theorem register_new_category_returns_none:
  assumes "get_category reg n = None"
  shows "(\<forall>ident. get_class_name (Cls k) = Inr ident \<longrightarrow>
            fst (register reg n (Cls k)) = Inr None
            \<and> \<not> truthy_result None
            \<and> map_option default_id (get_category (snd (register reg n (Cls k))) n)
                = Some (Some ident)
            \<and> (truthy (Cls k) \<longrightarrow>
                 map_option system_default (get_category (snd (register reg n (Cls k))) n)
                   = Some (Some (Cls k))))
         \<and> (\<forall>e. get_class_name (Cls k) = Inl e \<longrightarrow> register reg n (Cls k) = (Inl e, reg))
         \<and> (\<forall>reg1 c c1. get_category reg1 n = Some c
                \<and> Category_register c (Cls k) = (Inr (), c1)
              \<longrightarrow> fst (register reg1 n (Cls k)) = Inr (Some True)
                  \<and> truthy_result (Some True))"
proof -
  have a: "\<forall>ident. get_class_name (Cls k) = Inr ident \<longrightarrow>
            fst (register reg n (Cls k)) = Inr None
            \<and> \<not> truthy_result None
            \<and> map_option default_id (get_category (snd (register reg n (Cls k))) n)
                = Some (Some ident)
            \<and> (truthy (Cls k) \<longrightarrow>
                 map_option system_default (get_category (snd (register reg n (Cls k))) n)
                   = Some (Some (Cls k)))"
  proof (intro allI impI)
    fix ident assume "get_class_name (Cls k) = Inr ident"
    from register_creates [OF assms this]
    show "fst (register reg n (Cls k)) = Inr None
            \<and> \<not> truthy_result None
            \<and> map_option default_id (get_category (snd (register reg n (Cls k))) n)
                = Some (Some ident)
            \<and> (truthy (Cls k) \<longrightarrow>
                 map_option system_default (get_category (snd (register reg n (Cls k))) n)
                   = Some (Some (Cls k)))"
      by (simp add: get_put_category truthy_result_def del: truthy.simps)
  qed
  have b: "\<forall>e. get_class_name (Cls k) = Inl e \<longrightarrow> register reg n (Cls k) = (Inl e, reg)"
    using register_no_name [OF assms] by blast
  have c: "\<forall>reg1 c c1. get_category reg1 n = Some c
                \<and> Category_register c (Cls k) = (Inr (), c1)
              \<longrightarrow> fst (register reg1 n (Cls k)) = Inr (Some True)
                  \<and> truthy_result (Some True)"
    by (simp add: register_def truthy_result_def)
  from a b c show ?thesis by blast
qed

theorem register_new_category_returns_none_witness:
  "get_category empty_registry ''new_cat'' = None
   \<and> fst (register empty_registry ''new_cat'' (Cls GoodExt)) = Inr None
   \<and> \<not> truthy_result (None :: bool option)
   \<and> register empty_registry ''new_cat'' (Cls BuiltinExt) = (Inl AttributeError, empty_registry)
   \<and> fst (register (snd (register empty_registry ''new_cat'' (Cls GoodExt)))
            ''new_cat'' (Cls BadExt)) = Inr (Some True)"
proof -
  note t = register_new_category_returns_none
      [where reg = empty_registry and n = "''new_cat''", OF empty_registry_absent]
  have bn: "get_class_name (Cls BuiltinExt) = Inl AttributeError"
    by (simp add: BuiltinExt_def)
  from t [where k = GoodExt] GoodExt_name
  have a: "fst (register empty_registry ''new_cat'' (Cls GoodExt)) = Inr None
      \<and> \<not> truthy_result (None :: bool option)"
    by blast
  from t [where k = BuiltinExt] bn
  have b: "register empty_registry ''new_cat'' (Cls BuiltinExt)
      = (Inl AttributeError, empty_registry)"
    by blast
  have c: "fst (register (snd (register empty_registry ''new_cat'' (Cls GoodExt)))
            ''new_cat'' (Cls BadExt)) = Inr (Some True)"
    using register_creates [OF empty_registry_absent GoodExt_name, of "''new_cat''"]
    by (simp add: register_def get_put_category Category_register_def BadExt_def
        endswith_pyc_def Let_def)
  from a b c empty_registry_absent show ?thesis by blast
qed

text \<open>
  C10 as stated fails for a class of a module without a file: on the empty table,
  \<open>register('new_cat', dict)\<close> raises AttributeError and the table stays empty.
\<close>

theorem register_new_category_returns_none_counterexample:
  "get_category empty_registry ''new_cat'' = None
   \<and> register empty_registry ''new_cat'' (Cls BuiltinExt) = (Inl AttributeError, empty_registry)
   \<and> get_category (snd (register empty_registry ''new_cat'' (Cls BuiltinExt))) ''new_cat''
       = None"
proof -
  have bn: "get_class_name (Cls BuiltinExt) = Inl AttributeError"
    by (simp add: BuiltinExt_def)
  from register_no_name [OF empty_registry_absent bn, of "''new_cat''"]
  show ?thesis by (simp add: empty_registry_absent)
qed

subsection \<open>Attaching interfaces to an existing category\<close>

lemma collect_to_remove_Nil:
  "collect_to_remove vs S = [] \<longleftrightarrow> (\<forall>cls \<in> set vs. \<forall>i \<in> set S. is_implementation cls i)"
  by (auto simp: collect_to_remove_def filter_empty_conv)

lemma collect_to_remove_subset: "set (collect_to_remove vs S) \<subseteq> set vs"
  by (auto simp: collect_to_remove_def)

lemma set_interface_constrained:
  "interfaces c \<noteq> [] \<Longrightarrow> Category_set_interface c S = (Inr False, c)"
  by (simp add: Category_set_interface_def)

text \<open>
  When every registered class implements every new interface, nothing is to be removed:
  the interfaces are adopted and the call returns True.
\<close>

lemma set_interface_all_conform:
  assumes "interfaces c = []"
      and "\<forall>cls \<in> set (map snd (classes c)). \<forall>i \<in> set S. is_implementation cls i"
  shows "Category_set_interface c S = (Inr True, c\<lparr>interfaces := S\<rparr>)"
proof -
  have "collect_to_remove (map snd (classes c)) S = []"
    using assms(2) by (simp only: collect_to_remove_Nil) 
  with assms(1) show ?thesis by (simp add: Category_set_interface_def)
qed

text \<open>
  When some registered class fails some new interface, \<open>to_remove\<close> holds class
  objects while the keys of \<open>classes\<close> are id strings: the first \<open>del\<close> raises
  KeyError, after the interfaces have been assigned and with the table untouched.
\<close>

lemma inv_no_ObjKey: "category_inv c \<Longrightarrow> map_of (classes c) (ObjKey x) = None"
proof (rule ccontr)
  assume inv: "category_inv c" and "map_of (classes c) (ObjKey x) \<noteq> None"
  then obtain v where "map_of (classes c) (ObjKey x) = Some v" by blast
  then have "(ObjKey x, v) \<in> set (classes c)" by (rule map_of_SomeD)
  with inv show False unfolding category_inv_def by blast
qed

lemma set_interface_nonconforming_raises:
  assumes "category_inv c" and "interfaces c = []"
      and "cls \<in> set (map snd (classes c))" and "i \<in> set S"
      and "\<not> is_implementation cls i"
  shows "\<exists>bad. bad \<in> set (map snd (classes c))
           \<and> Category_set_interface c S = (Inl (KeyError (ObjKey bad)), c\<lparr>interfaces := S\<rparr>)"
proof -
  have "collect_to_remove (map snd (classes c)) S \<noteq> []"
    using assms(3-5) by (simp only: collect_to_remove_Nil) blast
  then obtain bad rest where br: "collect_to_remove (map snd (classes c)) S = bad # rest"
    by (cases "collect_to_remove (map snd (classes c)) S") auto
  have mem: "bad \<in> set (map snd (classes c))"
    using collect_to_remove_subset [of "map snd (classes c)" S] br by auto
  have d: "del_keys (map ObjKey (bad # rest)) (classes c)
             = (Some (KeyError (ObjKey bad)), classes c)"
    using inv_no_ObjKey [OF assms(1), of bad] by simp
  have "Category_set_interface c S = (Inl (KeyError (ObjKey bad)), c\<lparr>interfaces := S\<rparr>)"
    using assms(2) br d by (simp add: Category_set_interface_def)
  with mem show ?thesis by blast
qed

text \<open>
  C1 does not hold of the code. On the category \<open>storage\<close>, which requires no
  interface and holds \<open>BadExt\<close>, \<open>set_interface([IFoo])\<close> raises KeyError instead of
  removing \<open>BadExt\<close> and returning True; the interfaces are already assigned and
  \<open>BadExt\<close> is still registered.
\<close>

theorem set_interface_raises_KeyError:
  "interfaces storage_category = []
   \<and> map_of (classes storage_category) (StrKey ''/emesene/plugins/bad.py:BadExt'')
       = Some (Cls BadExt)
   \<and> \<not> is_implementation (Cls BadExt) (Cls IFoo)
   \<and> Category_set_interface storage_category [Cls IFoo] =
       (Inl (KeyError (ObjKey (Cls BadExt))), storage_category\<lparr>interfaces := [Cls IFoo]\<rparr>)
   \<and> map_of (classes (snd (Category_set_interface storage_category [Cls IFoo])))
        (StrKey ''/emesene/plugins/bad.py:BadExt'') = Some (Cls BadExt)"
proof -
  have a: "interfaces storage_category = []" by (simp add: storage_category_def)
  have b: "map_of (classes storage_category) (StrKey ''/emesene/plugins/bad.py:BadExt'')
       = Some (Cls BadExt)" by (simp add: storage_category_def)
  have tr: "collect_to_remove (map snd (classes storage_category)) [Cls IFoo] = [Cls BadExt]"
    using BadExt_fails_IFoo by (simp add: collect_to_remove_def storage_category_def)
  have m: "map_of (classes storage_category) (ObjKey (Cls BadExt)) = None"
    by (simp add: storage_category_def)
  have c: "Category_set_interface storage_category [Cls IFoo] =
       (Inl (KeyError (ObjKey (Cls BadExt))), storage_category\<lparr>interfaces := [Cls IFoo]\<rparr>)"
    using a tr m by (simp add: Category_set_interface_def)
  from a b c BadExt_fails_IFoo show ?thesis by simp
qed

subsection \<open>Multi-instance categories\<close>

lemma set_default_keeps:
  "is_single (snd (Category_set_default c cls)) = is_single c"
  "instance_ref c = None \<Longrightarrow> instance_ref (snd (Category_set_default c cls)) = None"
  by (auto simp: Category_set_default_def Category_register_def
      split: option.splits sum.splits prod.splits if_splits)

lemma set_interface_keeps:
  "is_single (snd (Category_set_interface c S)) = is_single c"
  "instance_ref (snd (Category_set_interface c S)) = instance_ref c"
  by (auto simp: Category_set_interface_def Let_def split: option.splits prod.splits)

lemma set_default_by_id_keeps:
  "is_single (fst (snd (Category_set_default_by_id c ident))) = is_single c"
  "instance_ref c = None \<Longrightarrow> instance_ref (fst (snd (Category_set_default_by_id c ident))) = None"
  using set_default_keeps [of c]
  by (auto simp: Category_set_default_by_id_def prod.case_eq_if split: option.splits)

lemma get_and_instantiate_keeps:
  "is_single (fst (snd (Category_get_and_instantiate construct c h args))) = is_single c"
  "\<not> is_single c \<Longrightarrow>
     instance_ref (fst (snd (Category_get_and_instantiate construct c h args))) = instance_ref c"
  by (auto simp: Category_get_and_instantiate_def Let_def split: sum.splits obj.splits)

lemma multi_apply_op:
  assumes "\<not> is_single (fst s)" and "instance_ref (fst s) = None"
  shows "\<not> is_single (fst (apply_op construct s op))
         \<and> instance_ref (fst (apply_op construct s op)) = None"
proof (cases s)
  case (Pair c h)
  with assms have c: "\<not> is_single c" "instance_ref c = None" by simp_all
  show ?thesis unfolding Pair
    using c register_keeps(1,2) [of c] set_interface_keeps [of c] set_default_keeps [of c]
      set_default_by_id_keeps [of c] get_and_instantiate_keeps [where c = c and construct = construct and h = h]
    by (cases op) (simp_all add: prod.case_eq_if)
qed

lemma multi_run_ops:
  "\<not> is_single (fst s) \<Longrightarrow> instance_ref (fst s) = None \<Longrightarrow>
     \<not> is_single (fst (run_ops construct s ops))
     \<and> instance_ref (fst (run_ops construct s ops)) = None"
  unfolding run_ops_def
proof (induction ops arbitrary: s)
  case Nil
  then show ?case by simp
next
  case (Cons op ops)
  from multi_apply_op [OF Cons.prems, of construct op]
  have "\<not> is_single (fst (apply_op construct s op))"
       "instance_ref (fst (apply_op construct s op)) = None" by simp_all
  from Cons.IH [OF this] show ?case by simp
qed

lemma init_fields:
  assumes "Category_init nm d ifaces single = Inr c"
  shows "is_single c = single \<and> instance_ref c = None"
proof -
  let ?c0 = "\<lparr>name = nm, system_default = (if truthy d then Some d else None),
              interfaces = (case ifaces of None \<Rightarrow> [] | Some l \<Rightarrow> l),
              classes = [], ids = [], is_single = single, instance_ref = None,
              default_id = None\<rparr>"
  have "c = snd (Category_set_default ?c0 d)"
    using assms by (auto simp: Category_init_def Let_def split: prod.splits sum.splits)
  then show ?thesis using set_default_keeps [of ?c0 d] by simp
qed

text \<open>
  C8. For a category constructed with \<open>single_instance = False\<close>, after every
  sequence of method calls, \<open>get_and_instantiate\<close> among them, whatever they returned
  or raised and whatever the heap holds, \<open>get_instance\<close> returns \<open>None\<close>; so does the
  module-level \<open>get_instance\<close> on a table that holds the category.
\<close>

theorem multi_instance_never_cached:
  assumes "Category_init nm d ifaces False = Inr c"
  shows "Category_get_instance (fst (run_ops construct (c, h) ops))
           (snd (run_ops construct (c, h) ops)) = None
         \<and> (\<forall>reg n h1. get_category reg n = Some (fst (run_ops construct (c, h) ops))
               \<longrightarrow> get_instance reg h1 n = None)"
proof -
  from init_fields [OF assms] have "\<not> is_single (fst (c, h))" "instance_ref (fst (c, h)) = None"
    by simp_all
  from multi_run_ops [OF this, of construct ops]
  have "instance_ref (fst (run_ops construct (c, h) ops)) = None" by simp
  then show ?thesis by (simp add: Category_get_instance_def get_instance_def)
qed

theorem multi_instance_never_cached_witness:
  "Category_get_instance
     (fst (run_ops plain_objects (codec_category, empty_heap)
             [GetAndInstantiate [], GetInstance, GetAndInstantiate [''again'']]))
     (snd (run_ops plain_objects (codec_category, empty_heap)
             [GetAndInstantiate [], GetInstance, GetAndInstantiate [''again'']])) = None
   \<and> next_addr (snd (run_ops plain_objects (codec_category, empty_heap)
             [GetAndInstantiate [], GetInstance, GetAndInstantiate [''again'']])) = 2"
proof -
  note t = multi_instance_never_cached [OF codec_category_created, of plain_objects empty_heap
             "[GetAndInstantiate [], GetInstance, GetAndInstantiate [''again'']]"]
  have "next_addr (snd (run_ops plain_objects (codec_category, empty_heap)
             [GetAndInstantiate [], GetInstance, GetAndInstantiate [''again'']])) = 2"
    by (simp add: run_ops_def Category_get_and_instantiate_def Category_get_instance_def
        truthy_instance_def Category_get_default_def default_key_def codec_category_def
        plain_objects_def empty_heap_def Let_def)
  with t show ?thesis by blast
qed

subsection \<open>The single-instance cache\<close>

text \<open>A call that finds a cached instance that is alive and true returns it.\<close>

lemma get_and_instantiate_cached:
  assumes "instance_ref c = Some r" and "objs h r = Some i" and "inst_truth i"
  shows "Category_get_and_instantiate construct c h args = (Inr (Some r), c, h)"
  using assms
  by (simp add: Category_get_and_instantiate_def Category_get_instance_def truthy_instance_def)

text \<open>A call that finds no cached instance builds one at a fresh address and caches it.\<close>

lemma get_and_instantiate_fresh:
  assumes "is_single c" and "Category_get_instance c h = None"
      and "Category_get_default c = Inr (Cls k)"
      and "construct k args = Inr \<lparr>truth_value = t, weak_referenceable = True\<rparr>"
  shows "Category_get_and_instantiate construct c h args =
           (Inr (Some (next_addr h)), c\<lparr>instance_ref := Some (next_addr h)\<rparr>,
            h\<lparr>objs := (objs h)(next_addr h \<mapsto>
                   \<lparr>inst_class = k, inst_args = args, inst_truth = t, inst_weakref = True\<rparr>),
              next_addr := Suc (next_addr h)\<rparr>)"
  using assms
  by (simp add: Category_get_and_instantiate_def truthy_instance_def Let_def)

text \<open>
  Two consecutive calls on a single-instance category, the heap untouched in between:
  when the first call returned an instance that is true in a condition, the second
  returns the same instance and changes nothing, whatever its arguments.
\<close>

lemma get_and_instantiate_twice:
  assumes "is_single c"
      and "Category_get_and_instantiate construct c h args1 = (Inr (Some a), c1, h1)"
      and "truthy_instance h1 (Some a)"
  shows "Category_get_and_instantiate construct c1 h1 args2 = (Inr (Some a), c1, h1)"
proof (cases "truthy_instance h (Category_get_instance c h)")
  case True
  with assms(2) have e: "Category_get_instance c h = Some a" and c1: "c1 = c" and h1: "h1 = h"
    by (auto simp: Category_get_and_instantiate_def)
  show ?thesis unfolding c1 h1 using True e by (simp add: Category_get_and_instantiate_def)
next
  case False
  from assms(3) obtain i where i: "objs h1 a = Some i" "inst_truth i"
    by (auto simp: truthy_instance_def split: option.splits)
  have "instance_ref c1 = Some a"
    using False assms(1,2)
    by (auto simp: Category_get_and_instantiate_def Let_def
        split: sum.splits obj.splits if_splits)
  from get_and_instantiate_cached [OF this i] show ?thesis .
qed

text \<open>
  On the single-instance path an object that cannot be weakly referenced makes the
  call raise TypeError; the category keeps its state and the object is not kept.
\<close>

lemma get_and_instantiate_not_weak_referenceable:
  assumes "is_single c" and "Category_get_instance c h = None"
      and "Category_get_default c = Inr (Cls k)" and "construct k args = Inr b"
      and "\<not> weak_referenceable b"
  shows "fst (Category_get_and_instantiate construct c h args) = Inl TypeError
         \<and> fst (snd (Category_get_and_instantiate construct c h args)) = c
         \<and> objs (snd (snd (Category_get_and_instantiate construct c h args))) (next_addr h)
             = None"
  using assms
  by (simp add: Category_get_and_instantiate_def truthy_instance_def release_def Let_def)

text \<open>Selecting a class with another id clears the cache.\<close>

lemma set_default_other_clears:
  assumes "Category_set_default c cls = (Inr (), c1)"
      and "get_class_name cls = Inr d" and "default_id c \<noteq> Some d"
  shows "default_id c1 = Some d \<and> instance_ref c1 = None"
proof -
  let ?r = "if map_of (ids c) cls = None then Category_register c cls else (Inr (), c)"
  have k: "default_id (snd ?r) = default_id c" using register_keeps(3) [of c cls] by simp
  obtain x c0 where r: "?r = (x, c0)" by (cases ?r)
  with k have k0: "default_id c0 = default_id c" by simp
  show ?thesis
    using assms r k0
    by (cases x) (auto simp: Category_set_default_def simp del: get_class_name.simps)
qed

text \<open>
  C6 does not hold of the code. \<open>get_and_instantiate\<close> decides with
  \<open>if self.get_instance():\<close>, the truth value of the cached instance, whether a
  reference is saved. On the single-instance category \<open>storage\<close> with default
  \<open>BadExt\<close>, in a run time whose instances are false in a condition, the first call
  returns the instance at address 0, which stays on the heap, and the second call
  builds and returns another instance, at address 1.
\<close>

theorem falsy_instance_not_reused:
  "is_single storage_category
   \<and> Category_set_default storage_category (Cls BadExt) = (Inr (), storage_category)
   \<and> fst (Category_get_and_instantiate empty_containers storage_category empty_heap [''first''])
       = Inr (Some 0)
   \<and> map_option inst_truth
        (objs (snd (snd (Category_get_and_instantiate empty_containers storage_category
                           empty_heap [''first'']))) 0) = Some False
   \<and> fst (Category_get_and_instantiate empty_containers
            (fst (snd (Category_get_and_instantiate empty_containers storage_category
                         empty_heap [''first''])))
            (snd (snd (Category_get_and_instantiate empty_containers storage_category
                         empty_heap [''first''])))
            [''second'']) = Inr (Some 1)"
proof -
  have s: "is_single storage_category" by (simp add: storage_category_def)
  have g: "Category_get_instance storage_category empty_heap = None"
    by (simp add: Category_get_instance_def storage_category_def)
  have d: "Category_get_default storage_category = Inr (Cls BadExt)"
    by (simp add: Category_get_default_def default_key_def storage_category_def)
  have e: "empty_containers BadExt [''first'']
             = Inr \<lparr>truth_value = False, weak_referenceable = True\<rparr>"
    by (simp add: empty_containers_def)
  note first = get_and_instantiate_fresh
      [where construct = empty_containers and k = BadExt and args = "[''first'']", OF s g d e]
  have sd: "Category_set_default storage_category (Cls BadExt) = (Inr (), storage_category)"
    by (simp add: Category_set_default_def storage_category_def BadExt_def
        endswith_pyc_def Let_def)
  have second: "fst (Category_get_and_instantiate empty_containers
            (storage_category\<lparr>instance_ref := Some (next_addr empty_heap)\<rparr>)
            (empty_heap\<lparr>objs := (objs empty_heap)(next_addr empty_heap \<mapsto>
                   \<lparr>inst_class = BadExt, inst_args = [''first''], inst_truth = False,
                    inst_weakref = True\<rparr>),
              next_addr := Suc (next_addr empty_heap)\<rparr>)
            [''second'']) = Inr (Some 1)"
    by (simp add: Category_get_and_instantiate_def Category_get_instance_def
        truthy_instance_def Category_get_default_def default_key_def storage_category_def
        empty_containers_def empty_heap_def Let_def)
  show ?thesis
    unfolding first using s sd second by (simp add: empty_heap_def)
qed

end
